theory Spec2Isabelle
  imports Complex_Main "HOL-Library.Word"
begin

section \<open>The expansion set and its iterator (xapian/eset.h)\<close>

subsection \<open>Data\<close>

text \<open>
  \<^verbatim>\<open>Xapian::doccount\<close> and \<^verbatim>\<open>Xapian::termcount\<close> come from xapian/types.h, where both
  are \<^verbatim>\<open>unsigned\<close>: 32-bit values whose subtraction and decrement wrap around.
  \<^verbatim>\<open>ESet::size_type\<close> is \<^verbatim>\<open>termcount\<close>.
\<close>

type_synonym doccount = "32 word"
type_synonym termcount = "32 word"

text \<open>
  Modelled from the spec: the class \<^verbatim>\<open>ESet::Internal\<close> is only forward-declared in
  eset.h. The spec describes the backing store as an ordered sequence of (term, weight)
  entries, index 0 first, together with a bound. The weight (a \<^verbatim>\<open>double\<close>) is only ever
  stored and read back, so its type is left as the parameter \<open>'w\<close>.
\<close>

record 'w Internal =
  items :: "(string \<times> 'w) list"
  ebound :: termcount

text \<open>
  \<^verbatim>\<open>class ESet { intrusive_ptr<Internal> internal; ... }\<close>: the handle holds a reference
  to one store or to none. The store is never written after construction, so the
  reference is modelled by the value it points to.
\<close>

record 'w ESet =
  internal :: "'w Internal option"

text \<open>
  \<^verbatim>\<open>class ESetIterator { ESet eset; ESet::size_type off_from_end; ... }\<close>
\<close>

record 'w ESetIterator =
  eset :: "'w ESet"
  off_from_end :: termcount

subsection \<open>ESet\<close>

text \<open>
  Modelled from the spec: the constructor \<^verbatim>\<open>ESet::ESet()\<close> is declared in eset.h and
  defined elsewhere. The spec: default construction gives the empty set, size 0, bound 0,
  no backing store.
\<close>

definition ESet_default :: "'w ESet" where
  "ESet_default = \<lparr>internal = None\<rparr>"

text \<open>
  Modelled from the spec: \<^verbatim>\<open>ESet::size()\<close> is declared in eset.h and defined elsewhere.
  The spec: it delegates to the store's entry count, and is 0 if no store is attached.
  The result type is the declared \<^verbatim>\<open>Xapian::doccount\<close>.
\<close>

definition ESet_size :: "'w ESet \<Rightarrow> doccount" where
  "ESet_size s = (case internal s of None \<Rightarrow> 0 | Some st \<Rightarrow> of_nat (length (items st)))"

text \<open>
  Modelled from the spec: \<^verbatim>\<open>ESet::get_ebound()\<close> is declared in eset.h and defined
  elsewhere. The spec: it delegates to the store, and is 0 if none is attached.
\<close>

definition ESet_get_ebound :: "'w ESet \<Rightarrow> termcount" where
  "ESet_get_ebound s = (case internal s of None \<Rightarrow> 0 | Some st \<Rightarrow> ebound st)"

text \<open>\<^verbatim>\<open>bool empty() const { return size() == 0; }\<close>\<close>

definition ESet_empty :: "'w ESet \<Rightarrow> bool" where
  "ESet_empty s = (ESet_size s = 0)"

text \<open>\<^verbatim>\<open>Xapian::doccount max_size() const { return size(); }\<close>\<close>

definition ESet_max_size :: "'w ESet \<Rightarrow> doccount" where
  "ESet_max_size s = ESet_size s"

text \<open>\<^verbatim>\<open>void swap(ESet & o) { internal.swap(o.internal); }\<close>: both handles, exchanged.\<close>

definition ESet_swap :: "'w ESet \<Rightarrow> 'w ESet \<Rightarrow> 'w ESet \<times> 'w ESet" where
  "ESet_swap s o' = (s\<lparr>internal := internal o'\<rparr>, o'\<lparr>internal := internal s\<rparr>)"

subsection \<open>ESetIterator\<close>

text \<open>
  The private constructor
  \<^verbatim>\<open>ESetIterator(const ESet & eset_, doccount off_from_end_) : eset(eset_), off_from_end(off_from_end_) { }\<close>
\<close>

definition ESetIterator_make :: "'w ESet \<Rightarrow> doccount \<Rightarrow> 'w ESetIterator" where
  "ESetIterator_make eset' off_from_end' = \<lparr>eset = eset', off_from_end = off_from_end'\<rparr>"

text \<open>
  \<^verbatim>\<open>ESetIterator() : off_from_end(0) { }\<close>: the member \<^verbatim>\<open>eset\<close> is default-constructed.
\<close>

definition ESetIterator_default :: "'w ESetIterator" where
  "ESetIterator_default = \<lparr>eset = ESet_default, off_from_end = 0\<rparr>"

text \<open>
  \<^verbatim>\<open>ESetIterator & operator++() { --off_from_end; return *this; }\<close>: the iterator after
  the call. There is no test of the counter; on an unsigned 0 the decrement wraps.
\<close>

definition ESetIterator_preinc :: "'w ESetIterator \<Rightarrow> 'w ESetIterator" where
  "ESetIterator_preinc it = it\<lparr>off_from_end := off_from_end it - 1\<rparr>"

text \<open>
  \<^verbatim>\<open>ESetIterator operator++(int) { ESetIterator retval = *this; --off_from_end; return retval; }\<close>:
  the returned copy, and the iterator after the call.
\<close>

definition ESetIterator_postinc :: "'w ESetIterator \<Rightarrow> 'w ESetIterator \<times> 'w ESetIterator" where
  "ESetIterator_postinc it = (it, it\<lparr>off_from_end := off_from_end it - 1\<rparr>)"

text \<open>\<^verbatim>\<open>ESetIterator & operator--() { ++off_from_end; return *this; }\<close>\<close>

definition ESetIterator_predec :: "'w ESetIterator \<Rightarrow> 'w ESetIterator" where
  "ESetIterator_predec it = it\<lparr>off_from_end := off_from_end it + 1\<rparr>"

text \<open>
  \<^verbatim>\<open>ESetIterator operator--(int) { ESetIterator retval = *this; ++off_from_end; return retval; }\<close>
\<close>

definition ESetIterator_postdec :: "'w ESetIterator \<Rightarrow> 'w ESetIterator \<times> 'w ESetIterator" where
  "ESetIterator_postdec it = (it, it\<lparr>off_from_end := off_from_end it + 1\<rparr>)"

text \<open>
  \<^verbatim>\<open>operator==(const ESetIterator &a, const ESetIterator &b) { return a.off_from_end == b.off_from_end; }\<close>
\<close>

definition ESetIterator_eq :: "'w ESetIterator \<Rightarrow> 'w ESetIterator \<Rightarrow> bool" where
  "ESetIterator_eq a b = (off_from_end a = off_from_end b)"

text \<open>\<^verbatim>\<open>operator!=(a, b) { return !(a == b); }\<close>\<close>

definition ESetIterator_neq :: "'w ESetIterator \<Rightarrow> 'w ESetIterator \<Rightarrow> bool" where
  "ESetIterator_neq a b = (\<not> ESetIterator_eq a b)"

text \<open>
  Modelled from the spec: \<^verbatim>\<open>ESetIterator::operator*()\<close> and
  \<^verbatim>\<open>ESetIterator::get_weight()\<close> are declared in eset.h and defined elsewhere. The spec:
  both require \<open>0 < distance_from_end \<le> size()\<close> and read the entry at index
  \<open>size() - distance_from_end\<close>; on \<^verbatim>\<open>end()\<close> or an unpositioned iterator they are a
  caller error, which is the value \<open>None\<close> here.
\<close>

definition ESetIterator_entry :: "'w ESetIterator \<Rightarrow> (string \<times> 'w) option" where
  "ESetIterator_entry it =
     (if 0 < off_from_end it \<and> off_from_end it \<le> ESet_size (eset it)
      then (case internal (eset it) of
              None \<Rightarrow> None
            | Some st \<Rightarrow> Some (items st ! unat (ESet_size (eset it) - off_from_end it)))
      else None)"

definition ESetIterator_deref :: "'w ESetIterator \<Rightarrow> string option" where
  "ESetIterator_deref it = map_option fst (ESetIterator_entry it)"

definition ESetIterator_get_weight :: "'w ESetIterator \<Rightarrow> 'w option" where
  "ESetIterator_get_weight it = map_option snd (ESetIterator_entry it)"

subsection \<open>The inlined methods of ESet that build iterators\<close>

text \<open>\<^verbatim>\<open>ESet::begin() const { return ESetIterator(*this, size()); }\<close>\<close>

definition ESet_begin :: "'w ESet \<Rightarrow> 'w ESetIterator" where
  "ESet_begin s = ESetIterator_make s (ESet_size s)"

text \<open>\<^verbatim>\<open>ESet::end() const { return ESetIterator(*this, 0); }\<close>\<close>

definition ESet_end :: "'w ESet \<Rightarrow> 'w ESetIterator" where
  "ESet_end s = ESetIterator_make s 0"

text \<open>
  \<^verbatim>\<open>ESet::operator[](doccount i) const { return ESetIterator(*this, size() - i); }\<close>:
  the spec's \<^verbatim>\<open>at(index)\<close>. The index is not compared with the size; the unsigned
  subtraction wraps.
\<close>

definition ESet_at :: "'w ESet \<Rightarrow> doccount \<Rightarrow> 'w ESetIterator" where
  "ESet_at s i = ESetIterator_make s (ESet_size s - i)"

text \<open>\<^verbatim>\<open>ESet::back() const { return ESetIterator(*this, 1); }\<close>\<close>

definition ESet_back :: "'w ESet \<Rightarrow> 'w ESetIterator" where
  "ESet_back s = ESetIterator_make s 1"

section \<open>Auxiliary facts\<close>

lemmas ESet_factory_defs =
  ESet_begin_def ESet_end_def ESet_at_def ESet_back_def ESetIterator_make_def

lemma preinc_funpow:
  "(ESetIterator_preinc ^^ n) it = it\<lparr>off_from_end := off_from_end it - of_nat n\<rparr>"
  by (induction n) (simp_all add: ESetIterator_preinc_def)

lemma begin_advanced_is_at:
  "(ESetIterator_preinc ^^ unat i) (ESet_begin s) = ESet_at s i"
  by (simp add: preinc_funpow ESet_factory_defs)

lemma size_pos_store:
  assumes "i < ESet_size s"
  obtains st where "internal s = Some st" and "unat i < length (items st)"
proof (cases "internal s")
  case None
  with assms show thesis by (simp add: ESet_size_def)
next
  case (Some st)
  from assms Some have "unat i < unat (of_nat (length (items st)) :: 32 word)"
    by (simp add: ESet_size_def word_less_nat_alt)
  also have "\<dots> \<le> length (items st)"
    by (simp add: unat_of_nat)
  finally show thesis using Some that by blast
qed

lemma at_offset_valid:
  fixes i n :: "32 word"
  assumes "i < n"
  shows "0 < n - i" and "n - i \<le> n" and "n - (n - i) = i"
    and "unat (n - i) = unat n - unat i"
proof -
  from assms have le: "i \<le> n" by simp
  from assms show "0 < n - i" by (simp add: word_gt_0)
  from le show "n - i \<le> n" by (rule word_sub_le)
  show "n - (n - i) = i" by simp
  from le show "unat (n - i) = unat n - unat i" by (rule unat_sub)
qed

lemma entry_at:
  assumes "i < ESet_size s" and "internal s = Some st"
  shows "ESetIterator_entry (ESet_at s i) = Some (items st ! unat i)"
  using assms at_offset_valid [OF assms(1)]
  by (simp add: ESetIterator_entry_def ESet_factory_defs)

section \<open>Indexing out of range\<close>

text \<open>
  Claim C1, on the code: \<^verbatim>\<open>operator[]\<close> with the index equal to the size, here index 2
  on a set of two entries, does not fail and returns exactly the iterator that
  \<^verbatim>\<open>end()\<close> returns; \<^verbatim>\<open>back()\<close> on the empty set does not fail either and returns an
  iterator with offset 1.
\<close>

theorem ESet_at_out_of_range_counterexample:
  "ESet_size (\<lparr>internal = Some \<lparr>items = [(''cat'', 2.5), (''dog'', 1.1)], ebound = 5\<rparr>\<rparr> :: real ESet) \<le> 2
   \<and> ESet_at (\<lparr>internal = Some \<lparr>items = [(''cat'', 2.5), (''dog'', 1.1)], ebound = 5\<rparr>\<rparr> :: real ESet) 2
       = ESet_end \<lparr>internal = Some \<lparr>items = [(''cat'', 2.5), (''dog'', 1.1)], ebound = 5\<rparr>\<rparr>
   \<and> ESet_empty (ESet_default :: real ESet)
   \<and> ESet_back (ESet_default :: real ESet) = \<lparr>eset = ESet_default, off_from_end = 1\<rparr>"
  by (simp add: ESet_size_def ESet_empty_def ESet_default_def ESet_factory_defs)

text \<open>
  Claim C1, as amended: an index \<open>i \<ge> size()\<close> and \<^verbatim>\<open>back()\<close> on an empty set are
  caller errors that the methods do not detect. \<^verbatim>\<open>operator[]\<close> returns the iterator
  whose offset is \<open>size() - i\<close> computed modulo \<open>2^32\<close>: it is \<^verbatim>\<open>end()\<close> when
  \<open>i = size()\<close>, and otherwise its offset lies above \<open>size()\<close>, so no valid position
  is substituted for the index. \<^verbatim>\<open>back()\<close> on an empty set returns the iterator with
  offset 1, which lies above the size 0.
\<close>

theorem ESet_at_unchecked:
  assumes "ESet_size s \<le> i" and "ESet_empty t"
  shows "ESet_at s i = \<lparr>eset = s, off_from_end = ESet_size s - i\<rparr>
       \<and> (off_from_end (ESet_at s i) = 0 \<or> ESet_size s < off_from_end (ESet_at s i))
       \<and> ESet_at s (ESet_size s) = ESet_end s
       \<and> ESet_back t = \<lparr>eset = t, off_from_end = 1\<rparr>
       \<and> ESet_size t < off_from_end (ESet_back t)"
proof -
  have "ESet_size s - i = 0 \<or> ESet_size s < ESet_size s - i"
  proof (cases "i = ESet_size s")
    case True
    then show ?thesis by simp
  next
    case False
    with assms(1) have lt: "ESet_size s < i" by simp
    have "unat (ESet_size s - i) = unat (ESet_size s) + 2 ^ 32 - unat i"
      using lt by (simp add: unat_sub_if_size word_size word_less_nat_alt)
    moreover have "unat i < 2 ^ 32" using unsigned_less [of i, where 'a = nat] by simp
    ultimately have "unat (ESet_size s) < unat (ESet_size s - i)" by simp
    then show ?thesis by (simp add: word_less_nat_alt)
  qed
  moreover from assms(2) have "ESet_size t < 1" by (simp add: ESet_empty_def)
  ultimately show ?thesis by (simp add: ESet_factory_defs)
qed

theorem ESet_at_unchecked_witness:
  "ESet_size (\<lparr>internal = Some \<lparr>items = [(''cat'', 2.5), (''dog'', 1.1)], ebound = 5\<rparr>\<rparr> :: real ESet) \<le> 3
   \<and> ESet_empty (ESet_default :: real ESet)
   \<and> off_from_end (ESet_at (\<lparr>internal = Some \<lparr>items = [(''cat'', 2.5), (''dog'', 1.1)], ebound = 5\<rparr>\<rparr> :: real ESet) 3) = 0xFFFFFFFF
   \<and> ESet_at (\<lparr>internal = Some \<lparr>items = [(''cat'', 2.5), (''dog'', 1.1)], ebound = 5\<rparr>\<rparr> :: real ESet) 2 = ESet_end \<lparr>internal = Some \<lparr>items = [(''cat'', 2.5), (''dog'', 1.1)], ebound = 5\<rparr>\<rparr>
   \<and> off_from_end (ESet_back (ESet_default :: real ESet)) = 1"
  using ESet_at_unchecked [of "\<lparr>internal = Some \<lparr>items = [(''cat'', 2.5), (''dog'', 1.1)], ebound = 5\<rparr>\<rparr> :: real ESet" 3 "ESet_default :: real ESet"]
  by (simp add: ESet_size_def ESet_empty_def ESet_default_def)

section \<open>Indexing and stepping from the beginning\<close>

text \<open>
  Claim C2: for every set \<open>s\<close> and index \<open>i < size()\<close>, the iterator \<open>s[i]\<close> and the
  iterator obtained from \<^verbatim>\<open>begin()\<close> by \<open>i\<close> applications of \<^verbatim>\<open>operator++\<close> are the
  same iterator, and give the same term and the same weight, which are those of entry
  \<open>i\<close> of the store.
\<close>

theorem at_deref_eq_begin_advanced:
  assumes "i < ESet_size s"
  shows "(ESetIterator_preinc ^^ unat i) (ESet_begin s) = ESet_at s i
       \<and> ESetIterator_deref (ESet_at s i)
           = ESetIterator_deref ((ESetIterator_preinc ^^ unat i) (ESet_begin s))
       \<and> ESetIterator_get_weight (ESet_at s i)
           = ESetIterator_get_weight ((ESetIterator_preinc ^^ unat i) (ESet_begin s))
       \<and> (\<exists>st. internal s = Some st \<and> unat i < length (items st)
              \<and> ESetIterator_deref (ESet_at s i) = Some (fst (items st ! unat i))
              \<and> ESetIterator_get_weight (ESet_at s i) = Some (snd (items st ! unat i)))"
proof -
  from assms obtain st where st: "internal s = Some st" "unat i < length (items st)"
    by (rule size_pos_store)
  from assms st(1) have "ESetIterator_entry (ESet_at s i) = Some (items st ! unat i)"
    by (rule entry_at)
  with st show ?thesis
    by (simp add: begin_advanced_is_at ESetIterator_deref_def ESetIterator_get_weight_def)
qed

theorem at_deref_eq_begin_advanced_witness:
  "(1 :: doccount) < ESet_size (\<lparr>internal = Some \<lparr>items = [(''cat'', 2.5), (''dog'', 1.1)], ebound = 5\<rparr>\<rparr> :: real ESet)
   \<and> ESetIterator_deref ((ESetIterator_preinc ^^ unat (1 :: doccount))
        (ESet_begin (\<lparr>internal = Some \<lparr>items = [(''cat'', 2.5), (''dog'', 1.1)], ebound = 5\<rparr>\<rparr> :: real ESet)))
       = Some ''dog''
   \<and> ESetIterator_get_weight ((ESetIterator_preinc ^^ unat (1 :: doccount))
        (ESet_begin (\<lparr>internal = Some \<lparr>items = [(''cat'', 2.5), (''dog'', 1.1)], ebound = 5\<rparr>\<rparr> :: real ESet)))
       = Some 1.1"
proof -
  let ?s = "\<lparr>internal = Some \<lparr>items = [(''cat'', 2.5), (''dog'', 1.1)], ebound = 5\<rparr>\<rparr> :: real ESet"
  let ?adv = "(ESetIterator_preinc ^^ unat (1 :: doccount)) (ESet_begin ?s)"
  have h: "(1 :: doccount) < ESet_size ?s" by (simp add: ESet_size_def)
  note w = at_deref_eq_begin_advanced [OF h]
  from w have d: "ESetIterator_deref (ESet_at ?s 1) = ESetIterator_deref ?adv"
    by (rule conjunct2 [THEN conjunct1])
  from w have g: "ESetIterator_get_weight (ESet_at ?s 1) = ESetIterator_get_weight ?adv"
    by (rule conjunct2 [THEN conjunct2, THEN conjunct1])
  from w obtain st where st: "internal ?s = Some st"
    and sd: "ESetIterator_deref (ESet_at ?s 1) = Some (fst (items st ! unat (1 :: doccount)))"
    and sg: "ESetIterator_get_weight (ESet_at ?s 1) = Some (snd (items st ! unat (1 :: doccount)))"
    by blast
  from st have "st = \<lparr>items = [(''cat'', 2.5), (''dog'', 1.1)], ebound = 5\<rparr>" by simp
  then have "fst (items st ! unat (1 :: doccount)) = ''dog''"
    and "snd (items st ! unat (1 :: doccount)) = 1.1"
    by simp_all
  with sd sg have "ESetIterator_deref (ESet_at ?s 1) = Some ''dog''"
    and "ESetIterator_get_weight (ESet_at ?s 1) = Some 1.1"
    by (simp_all only:)
  with d g have "ESetIterator_deref ?adv = Some ''dog''"
    and "ESetIterator_get_weight ?adv = Some 1.1"
    by (simp_all only:)
  with h show ?thesis by blast
qed

section \<open>Comparison of iterators\<close>

text \<open>
  Claim C3: for every set, \<^verbatim>\<open>begin()\<close> and \<^verbatim>\<open>end()\<close> compare equal exactly when
  \<^verbatim>\<open>size()\<close> is 0.
\<close>

theorem begin_eq_end_iff_size_0:
  "ESetIterator_eq (ESet_begin s) (ESet_end s) \<longleftrightarrow> ESet_size s = 0"
  by (simp add: ESetIterator_eq_def ESet_factory_defs)

text \<open>
  Claim C4: two iterators compare equal exactly when their offsets from the end are equal;
  the sets they hold play no part, so replacing them changes nothing, and
  \<^verbatim>\<open>operator!=\<close> is the negation.
\<close>

theorem eq_iff_off_from_end:
  "(ESetIterator_eq a b \<longleftrightarrow> off_from_end a = off_from_end b)
   \<and> ESetIterator_eq (a\<lparr>eset := s\<rparr>) (b\<lparr>eset := t\<rparr>) = ESetIterator_eq a b
   \<and> ESetIterator_neq a b = (off_from_end a \<noteq> off_from_end b)"
  by (simp add: ESetIterator_eq_def ESetIterator_neq_def)

section \<open>Stepping\<close>

text \<open>
  Claim C5, on the code: \<^verbatim>\<open>operator++\<close> on \<^verbatim>\<open>end()\<close> of a set of two entries does not
  fail; it returns the iterator whose counter has wrapped to \<open>2^32 - 1\<close>.
\<close>

theorem preinc_at_end_counterexample:
  "ESetIterator_preinc (ESet_end (\<lparr>internal = Some \<lparr>items = [(''cat'', 2.5), (''dog'', 1.1)], ebound = 5\<rparr>\<rparr> :: real ESet))
     = \<lparr>eset = \<lparr>internal = Some \<lparr>items = [(''cat'', 2.5), (''dog'', 1.1)], ebound = 5\<rparr>\<rparr>,
        off_from_end = 0xFFFFFFFF\<rparr>"
  by (simp add: ESetIterator_preinc_def ESet_factory_defs)

text \<open>
  Claim C5, as amended: advancing an iterator that is at \<^verbatim>\<open>end()\<close> (offset 0) is a
  caller error that \<^verbatim>\<open>operator++\<close> does not detect. The call is not a no-op: the
  unsigned counter wraps to \<open>2^32 - 1\<close>, the result compares unequal to the iterator it
  came from, and one \<^verbatim>\<open>operator--\<close> brings the counter back to 0.
\<close>

theorem preinc_at_end_wraps:
  assumes "off_from_end it = 0"
  shows "ESetIterator_preinc it = it\<lparr>off_from_end := 0xFFFFFFFF\<rparr>
       \<and> ESetIterator_neq (ESetIterator_preinc it) it
       \<and> ESetIterator_eq (ESetIterator_predec (ESetIterator_preinc it)) it"
  using assms
  by (simp add: ESetIterator_preinc_def ESetIterator_predec_def ESetIterator_neq_def
      ESetIterator_eq_def)

theorem preinc_at_end_wraps_witness:
  "off_from_end (ESet_end (ESet_default :: real ESet)) = 0
   \<and> ESetIterator_preinc (ESet_end (ESet_default :: real ESet))
       = (ESet_end ESet_default)\<lparr>off_from_end := 0xFFFFFFFF\<rparr>
   \<and> ESetIterator_neq (ESetIterator_preinc (ESet_end (ESet_default :: real ESet)))
        (ESet_end ESet_default)"
proof -
  let ?it = "ESet_end (ESet_default :: real ESet)"
  have h: "off_from_end ?it = 0" by (simp add: ESet_factory_defs)
  note w = preinc_at_end_wraps [OF h]
  from h w [THEN conjunct1] w [THEN conjunct2, THEN conjunct1] show ?thesis by blast
qed

text \<open>
  Claim C6: for every set of size above 0, \<^verbatim>\<open>back()\<close> compares equal to \<^verbatim>\<open>end()\<close>
  moved back once by \<^verbatim>\<open>operator--\<close> (the two are the same iterator), and its offset
  from the end is 1.
\<close>

theorem back_eq_end_retreated:
  assumes "0 < ESet_size s"
  shows "ESetIterator_eq (ESet_back s) (ESetIterator_predec (ESet_end s))
       \<and> ESet_back s = ESetIterator_predec (ESet_end s)
       \<and> off_from_end (ESet_back s) = 1"
  by (simp add: ESetIterator_eq_def ESetIterator_predec_def ESet_factory_defs)

theorem back_eq_end_retreated_witness:
  "0 < ESet_size (\<lparr>internal = Some \<lparr>items = [(''cat'', 2.5), (''dog'', 1.1)], ebound = 5\<rparr>\<rparr> :: real ESet)
   \<and> ESetIterator_eq (ESet_back (\<lparr>internal = Some \<lparr>items = [(''cat'', 2.5), (''dog'', 1.1)], ebound = 5\<rparr>\<rparr> :: real ESet))
        (ESetIterator_predec (ESet_end \<lparr>internal = Some \<lparr>items = [(''cat'', 2.5), (''dog'', 1.1)], ebound = 5\<rparr>\<rparr>))
   \<and> off_from_end (ESet_back (\<lparr>internal = Some \<lparr>items = [(''cat'', 2.5), (''dog'', 1.1)], ebound = 5\<rparr>\<rparr> :: real ESet)) = 1"
proof -
  let ?s = "\<lparr>internal = Some \<lparr>items = [(''cat'', 2.5), (''dog'', 1.1)], ebound = 5\<rparr>\<rparr> :: real ESet"
  have h: "0 < ESet_size ?s" by (simp add: ESet_size_def)
  note w = back_eq_end_retreated [OF h]
  from h w [THEN conjunct1] w [THEN conjunct2, THEN conjunct2] show ?thesis by blast
qed

text \<open>
  Claim C7: from every valid position (\<open>0 < off_from_end \<le> size()\<close>),
  \<^verbatim>\<open>operator++\<close> followed by \<^verbatim>\<open>operator--\<close> gives an iterator that compares equal to
  the original, and is the original.
\<close>

theorem preinc_predec_roundtrip:
  assumes "0 < off_from_end it" and "off_from_end it \<le> ESet_size (eset it)"
  shows "ESetIterator_eq (ESetIterator_predec (ESetIterator_preinc it)) it
       \<and> ESetIterator_predec (ESetIterator_preinc it) = it"
  by (simp add: ESetIterator_eq_def ESetIterator_predec_def ESetIterator_preinc_def)

theorem preinc_predec_roundtrip_witness:
  "0 < off_from_end (ESet_begin (\<lparr>internal = Some \<lparr>items = [(''cat'', 2.5), (''dog'', 1.1)], ebound = 5\<rparr>\<rparr> :: real ESet))
   \<and> off_from_end (ESet_begin (\<lparr>internal = Some \<lparr>items = [(''cat'', 2.5), (''dog'', 1.1)], ebound = 5\<rparr>\<rparr> :: real ESet))
       \<le> ESet_size (eset (ESet_begin (\<lparr>internal = Some \<lparr>items = [(''cat'', 2.5), (''dog'', 1.1)], ebound = 5\<rparr>\<rparr> :: real ESet)))
   \<and> ESetIterator_eq
        (ESetIterator_predec (ESetIterator_preinc
           (ESet_begin (\<lparr>internal = Some \<lparr>items = [(''cat'', 2.5), (''dog'', 1.1)], ebound = 5\<rparr>\<rparr> :: real ESet))))
        (ESet_begin \<lparr>internal = Some \<lparr>items = [(''cat'', 2.5), (''dog'', 1.1)], ebound = 5\<rparr>\<rparr>)"
proof -
  let ?it = "ESet_begin (\<lparr>internal = Some \<lparr>items = [(''cat'', 2.5), (''dog'', 1.1)], ebound = 5\<rparr>\<rparr> :: real ESet)"
  have h1: "0 < off_from_end ?it" and h2: "off_from_end ?it \<le> ESet_size (eset ?it)"
    by (simp_all add: ESet_size_def ESet_factory_defs)
  from h1 h2 preinc_predec_roundtrip [OF h1 h2, THEN conjunct1] show ?thesis by blast
qed

section \<open>Positions established by the factories\<close>

text \<open>
  Claim C8: for every set, empty or not, \<^verbatim>\<open>begin()\<close> has offset \<open>size()\<close>, \<^verbatim>\<open>end()\<close>
  has offset 0 and \<^verbatim>\<open>back()\<close> has offset 1, and each iterator holds the set it was
  made from; for an index \<open>i < size()\<close>, \<open>s[i]\<close> has offset \<open>size() - i\<close>, where no
  wrap-around occurs and the position is valid.
\<close>

theorem factory_positions:
  "off_from_end (ESet_begin s) = ESet_size s
   \<and> off_from_end (ESet_end s) = 0
   \<and> off_from_end (ESet_back s) = 1
   \<and> eset (ESet_begin s) = s \<and> eset (ESet_end s) = s
   \<and> eset (ESet_at s i) = s \<and> eset (ESet_back s) = s
   \<and> (i < ESet_size s \<longrightarrow>
        off_from_end (ESet_at s i) = ESet_size s - i
        \<and> unat (off_from_end (ESet_at s i)) = unat (ESet_size s) - unat i
        \<and> 0 < off_from_end (ESet_at s i)
        \<and> off_from_end (ESet_at s i) \<le> ESet_size s)"
proof -
  have "off_from_end (ESet_at s i) = ESet_size s - i
        \<and> unat (off_from_end (ESet_at s i)) = unat (ESet_size s) - unat i
        \<and> 0 < off_from_end (ESet_at s i)
        \<and> off_from_end (ESet_at s i) \<le> ESet_size s"
    if "i < ESet_size s"
    using at_offset_valid [OF that] by (simp add: ESet_factory_defs)
  then show ?thesis by (simp add: ESet_factory_defs)
qed

theorem factory_positions_witness:
  "(1 :: doccount) < ESet_size (\<lparr>internal = Some \<lparr>items = [(''cat'', 2.5), (''dog'', 1.1)], ebound = 5\<rparr>\<rparr> :: real ESet)
   \<and> off_from_end (ESet_begin (ESet_default :: real ESet)) = 0
   \<and> off_from_end (ESet_end (ESet_default :: real ESet)) = 0
   \<and> off_from_end (ESet_back (ESet_default :: real ESet)) = 1
   \<and> off_from_end (ESet_begin (\<lparr>internal = Some \<lparr>items = [(''cat'', 2.5), (''dog'', 1.1)], ebound = 5\<rparr>\<rparr> :: real ESet)) = 2
   \<and> off_from_end (ESet_end (\<lparr>internal = Some \<lparr>items = [(''cat'', 2.5), (''dog'', 1.1)], ebound = 5\<rparr>\<rparr> :: real ESet)) = 0
   \<and> off_from_end (ESet_back (\<lparr>internal = Some \<lparr>items = [(''cat'', 2.5), (''dog'', 1.1)], ebound = 5\<rparr>\<rparr> :: real ESet)) = 1
   \<and> off_from_end (ESet_at (\<lparr>internal = Some \<lparr>items = [(''cat'', 2.5), (''dog'', 1.1)], ebound = 5\<rparr>\<rparr> :: real ESet) 1) = 1"
proof -
  let ?s = "\<lparr>internal = Some \<lparr>items = [(''cat'', 2.5), (''dog'', 1.1)], ebound = 5\<rparr>\<rparr> :: real ESet"
  let ?d = "ESet_default :: real ESet"
  have h: "(1 :: doccount) < ESet_size ?s" by (simp add: ESet_size_def)
  have n: "ESet_size ?s = 2" and z: "ESet_size ?d = 0"
    by (simp_all add: ESet_size_def ESet_default_def)
  note w = factory_positions [of ?s 1]
  note e = factory_positions [of ?d 0]
  from e have e1: "off_from_end (ESet_begin ?d) = ESet_size ?d"
    by (rule conjunct1)
  from e have e2: "off_from_end (ESet_end ?d) = 0"
    by (rule conjunct2 [THEN conjunct1])
  from e have e3: "off_from_end (ESet_back ?d) = 1"
    by (rule conjunct2 [THEN conjunct2, THEN conjunct1])
  from w have w1: "off_from_end (ESet_begin ?s) = ESet_size ?s"
    by (rule conjunct1)
  from w have w2: "off_from_end (ESet_end ?s) = 0"
    by (rule conjunct2 [THEN conjunct1])
  from w have w3: "off_from_end (ESet_back ?s) = 1"
    by (rule conjunct2 [THEN conjunct2, THEN conjunct1])
  from w have "(1 :: doccount) < ESet_size ?s \<longrightarrow>
        off_from_end (ESet_at ?s 1) = ESet_size ?s - 1
        \<and> unat (off_from_end (ESet_at ?s 1)) = unat (ESet_size ?s) - unat (1 :: doccount)
        \<and> 0 < off_from_end (ESet_at ?s 1)
        \<and> off_from_end (ESet_at ?s 1) \<le> ESet_size ?s"
    by blast
  with h have "off_from_end (ESet_at ?s 1) = ESet_size ?s - 1" by blast
  then have w4: "off_from_end (ESet_at ?s 1) = 1" by (simp only: n) simp
  from e1 have e1': "off_from_end (ESet_begin ?d) = 0" by (simp only: z)
  from w1 have w1': "off_from_end (ESet_begin ?s) = 2" by (simp only: n)
  from h e1' e2 e3 w1' w2 w3 w4 show ?thesis by blast
qed

text \<open>
  Claim C9: the default-constructed iterator has offset 0 and so compares equal to
  \<^verbatim>\<open>end()\<close> of every set, although it holds the default set, which has no store, and
  reading its term or weight is an error.
\<close>

theorem default_iterator_eq_end:
  "off_from_end (ESetIterator_default :: 'w ESetIterator) = 0
   \<and> ESetIterator_eq (ESetIterator_default :: 'w ESetIterator) (ESet_end s)
   \<and> internal (eset (ESetIterator_default :: 'w ESetIterator)) = None
   \<and> ESetIterator_deref (ESetIterator_default :: 'w ESetIterator) = None
   \<and> ESetIterator_get_weight (ESetIterator_default :: 'w ESetIterator) = None"
  by (simp add: ESetIterator_default_def ESet_default_def ESetIterator_eq_def ESet_factory_defs
      ESetIterator_deref_def ESetIterator_get_weight_def ESetIterator_entry_def)

section \<open>Size, capacity and emptiness\<close>

text \<open>
  Claim C10: for every set, \<^verbatim>\<open>max_size()\<close> equals \<^verbatim>\<open>size()\<close> and \<^verbatim>\<open>empty()\<close> holds
  exactly when \<^verbatim>\<open>size()\<close> is 0; for the default-constructed set both sizes are 0 and it
  is empty.
\<close>

theorem max_size_and_empty:
  "ESet_max_size s = ESet_size s
   \<and> ESet_empty s = (ESet_size s = 0)
   \<and> ESet_max_size (ESet_default :: 'w ESet) = ESet_size (ESet_default :: 'w ESet)
   \<and> ESet_size (ESet_default :: 'w ESet) = 0
   \<and> ESet_empty (ESet_default :: 'w ESet)"
  by (simp add: ESet_max_size_def ESet_empty_def ESet_size_def ESet_default_def)

end
